theory Spec2Isabelle
  imports Main
begin

section \<open>Strings\<close>

text \<open>
  A JavaScript string is modelled by the bytes of its UTF-8 encoding, as a HOL
  \<^typ>\<open>string\<close>: this is every well-formed string. (An unpaired surrogate has no UTF-8
  encoding; it is the one input on which \<open>encodeURIComponent\<close> raises, and the
  type leaves it out.)
\<close>

text \<open>\<open>String.prototype.includes\<close>: the argument occurs as a contiguous part.\<close>

fun str_includes :: "string \<Rightarrow> string \<Rightarrow> bool" where
  "str_includes [] sub = (sub = [])"
| "str_includes (c # cs) sub = (take (length sub) (c # cs) = sub \<or> str_includes cs sub)"

text \<open>\<open>Array.prototype.join\<close> on strings.\<close>

fun join :: "string \<Rightarrow> string list \<Rightarrow> string" where
  "join sep [] = []"
| "join sep [x] = x"
| "join sep (x # y # ys) = x @ sep @ join sep (y # ys)"

text \<open>The decimal digits of a number, as a template literal prints an integer.\<close>

definition digit_char :: "nat \<Rightarrow> char" where
  "digit_char d = char_of (48 + d)"

fun digits :: "nat \<Rightarrow> string" where
  "digits n = (if n < 10 then [digit_char n] else digits (n div 10) @ [digit_char (n mod 10)])"

declare digits.simps [simp del]

subsection \<open>\<open>String.prototype.trim\<close>\<close>

text \<open>
  The code points that \<open>trim\<close> removes (ECMAScript WhiteSpace and LineTerminator), each
  as its UTF-8 bytes: U+0009 to U+000D, U+0020, U+00A0, U+1680, U+2000 to U+200A, U+2028,
  U+2029, U+202F, U+205F, U+3000, U+FEFF.
\<close>

definition white_space :: "string list" where
  "white_space =
     [[CHR 0x09], [CHR 0x0A], [CHR 0x0B], [CHR 0x0C], [CHR 0x0D], [CHR 0x20],
      [CHR 0xC2, CHR 0xA0],
      [CHR 0xE1, CHR 0x9A, CHR 0x80],
      [CHR 0xE2, CHR 0x80, CHR 0x80], [CHR 0xE2, CHR 0x80, CHR 0x81],
      [CHR 0xE2, CHR 0x80, CHR 0x82], [CHR 0xE2, CHR 0x80, CHR 0x83],
      [CHR 0xE2, CHR 0x80, CHR 0x84], [CHR 0xE2, CHR 0x80, CHR 0x85],
      [CHR 0xE2, CHR 0x80, CHR 0x86], [CHR 0xE2, CHR 0x80, CHR 0x87],
      [CHR 0xE2, CHR 0x80, CHR 0x88], [CHR 0xE2, CHR 0x80, CHR 0x89],
      [CHR 0xE2, CHR 0x80, CHR 0x8A],
      [CHR 0xE2, CHR 0x80, CHR 0xA8], [CHR 0xE2, CHR 0x80, CHR 0xA9],
      [CHR 0xE2, CHR 0x80, CHR 0xAF],
      [CHR 0xE2, CHR 0x81, CHR 0x9F],
      [CHR 0xE3, CHR 0x80, CHR 0x80],
      [CHR 0xEF, CHR 0xBB, CHR 0xBF]]"

text \<open>
  \<open>lead ws s\<close> is the number of bytes of the first sequence of \<open>ws\<close> that \<open>s\<close> starts
  with, and 0 when there is none.
\<close>

fun lead :: "string list \<Rightarrow> string \<Rightarrow> nat" where
  "lead [] s = 0"
| "lead (w # ws) s = (if w \<noteq> [] \<and> take (length w) s = w then length w else lead ws s)"

lemma lead_le: "lead ws s \<le> length s"
proof (induction ws)
  case Nil
  show ?case by simp
next
  case (Cons w ws)
  have "length w \<le> length s" if "take (length w) s = w"
  proof -
    from that have "length (take (length w) s) = length w" by simp
    then show ?thesis by simp
  qed
  with Cons show ?case by simp
qed

function strip :: "string list \<Rightarrow> string \<Rightarrow> string" where
  "strip ws s = (if lead ws s = 0 then s else strip ws (drop (lead ws s) s))"
  by pat_completeness auto
termination
proof (relation "measure (\<lambda>(ws, s). length s)")
  show "wf (measure (\<lambda>(ws, s). length s))" by simp
next
  fix ws :: "string list" and s :: string
  assume "lead ws s \<noteq> 0"
  moreover have "lead ws s \<le> length s" by (rule lead_le)
  ultimately show "((ws, drop (lead ws s) s), (ws, s)) \<in> measure (\<lambda>(ws, s). length s)"
    by simp
qed

declare strip.simps [simp del]

definition trim :: "string \<Rightarrow> string" where
  "trim s = rev (strip (map rev white_space) (rev (strip white_space s)))"

text \<open>The white space of one byte: tab, line feed, vertical tab, form feed, return, space.\<close>

definition blank :: "char \<Rightarrow> bool" where
  "blank c = (c \<in> set [CHR 0x09, CHR 0x0A, CHR 0x0B, CHR 0x0C, CHR 0x0D, CHR 0x20])"

subsection \<open>Percent-encoding\<close>

definition hex_digit :: "nat \<Rightarrow> char" where
  "hex_digit d = (if d < 10 then char_of (48 + d) else char_of (55 + d))"

definition pct :: "char \<Rightarrow> string" where
  "pct c = [CHR ''%'', hex_digit (of_char c div 16), hex_digit (of_char c mod 16)]"

definition alnum :: "char \<Rightarrow> bool" where
  "alnum c = (let n = (of_char c :: nat) in
     (48 \<le> n \<and> n \<le> 57) \<or> (65 \<le> n \<and> n \<le> 90) \<or> (97 \<le> n \<and> n \<le> 122))"

text \<open>
  \<open>encodeURIComponent\<close> keeps the letters, the digits and \<open>- _ . ! ~ * ' ( )\<close>, and
  writes every other byte of the UTF-8 encoding as \<open>%XX\<close> in upper-case hexadecimal.
\<close>

definition uri_unreserved :: "char \<Rightarrow> bool" where
  "uri_unreserved c = (alnum c \<or> c \<in> set ''-_.!~*'' \<or> c = CHR 0x27 \<or> c \<in> set ''()'')"

definition uri_byte :: "char \<Rightarrow> string" where
  "uri_byte c = (if uri_unreserved c then [c] else pct c)"

definition encodeURIComponent :: "string \<Rightarrow> string" where
  "encodeURIComponent s = concat (map uri_byte s)"

section \<open>Values and errors\<close>

text \<open>
  The value that \<open>response.json()\<close> resolves to. A number is kept as the text JavaScript
  prints for it (\<open>''0''\<close>, \<open>''10''\<close>, \<open>''1.5''\<close>), which is all the code can observe of it;
  an object is the list of its properties, each key once.
\<close>

datatype json =
    JNull
  | JBool bool
  | JNum string
  | JStr string
  | JArr "json list"
  | JObj "(string \<times> json) list"

text \<open>Reading a property gives \<open>None\<close> for \<open>undefined\<close>.\<close>

fun property :: "json \<Rightarrow> string \<Rightarrow> json option" where
  "property (JObj fs) k = map_of fs k"
| "property v k = None"

text \<open>What \<open>!v\<close> tests: \<open>undefined\<close>, \<open>null\<close>, \<open>false\<close>, \<open>0\<close> and \<open>''\<close> are falsy.\<close>

fun falsy :: "json option \<Rightarrow> bool" where
  "falsy None = True"
| "falsy (Some JNull) = True"
| "falsy (Some (JBool b)) = (b = False)"
| "falsy (Some (JNum n)) = (n = ''0'')"
| "falsy (Some (JStr s)) = (s = [])"
| "falsy (Some v) = False"

text \<open>\<open>v.length === 0\<close> for a truthy \<open>v\<close>.\<close>

fun length_is_0 :: "json \<Rightarrow> bool" where
  "length_is_0 (JArr xs) = (xs = [])"
| "length_is_0 (JStr s) = (s = [])"
| "length_is_0 (JObj fs) = (map_of fs ''length'' = Some (JNum ''0''))"
| "length_is_0 v = False"

text \<open>
  The conversion to a string that \<open>new Error(v)\<close> applies to its argument. It raises a
  TypeError on an object with a property \<open>toString\<close> of its own, which is never a function
  in parsed JSON.
\<close>

fun printable :: "json \<Rightarrow> bool" where
  "printable (JObj fs) = (''toString'' \<notin> set (map fst fs))"
| "printable (JArr xs) = list_all printable xs"
| "printable v = True"

fun ToString :: "json \<Rightarrow> string" where
  "ToString JNull = ''null''"
| "ToString (JBool b) = (if b then ''true'' else ''false'')"
| "ToString (JNum n) = n"
| "ToString (JStr s) = s"
| "ToString (JArr xs) = join '','' (map (\<lambda>x. if x = JNull then [] else ToString x) xs)"
| "ToString (JObj fs) = ''[object Object]''"

text \<open>An exception: the name of its constructor and its \<open>message\<close>.\<close>

datatype js_error = Thrown (name: string) (message: string)

abbreviation Error :: "string \<Rightarrow> js_error" where
  "Error m \<equiv> Thrown ''Error'' m"

text \<open>
  The errors of \<^verbatim>\<open>src/services/newsApi.js\<close>, under the names the specification gives
  to their kinds. Each is a plain \<open>Error\<close> that only its message tells apart.
\<close>

definition MissingApiKey :: js_error where
  "MissingApiKey =
     Error ''API key is missing. Please configure VITE_NEWS_API_KEY in your .env file''"

definition ValidationError :: js_error where
  "ValidationError = Error ''Search topic cannot be empty''"

definition InvalidCredential :: js_error where
  "InvalidCredential = Error ''Invalid API key. Please check your NewsAPI.org credentials''"

definition RateLimited :: js_error where
  "RateLimited =
     Error ''Rate limit exceeded. Please try again later (100 requests/day limit)''"

definition UpstreamError :: "string \<Rightarrow> js_error" where
  "UpstreamError m = Error m"

definition NetworkError :: js_error where
  "NetworkError = Error ''Network error. Please check your internet connection''"

section \<open>The network\<close>

text \<open>
  A call \<open>fetch(url, {headers})\<close> and what it settles to: \<open>Inl\<close> when the promise rejects
  (no response arrived), \<open>Inr\<close> a response otherwise. Of a response the code reads
  \<open>status\<close>, \<open>statusText\<close>, \<open>ok\<close> and \<open>json()\<close>, which rejects when the body is not JSON.
\<close>

record request =
  url :: string
  headers :: "(string \<times> string) list"

record response =
  status :: nat
  statusText :: string
  json :: "js_error + json"

definition ok :: "response \<Rightarrow> bool" where
  "ok r = (200 \<le> status r \<and> status r \<le> 299)"

type_synonym network = "request \<Rightarrow> js_error + response"

section \<open>\<^verbatim>\<open>src/services/newsApi.js\<close>: the direct calls\<close>

definition BASE_URL :: string where
  "BASE_URL = ''https://newsapi.org/v2''"

text \<open>A value in a template literal or as a header: \<open>undefined\<close> prints as that word.\<close>

fun shown :: "string option \<Rightarrow> string" where
  "shown None = ''undefined''"
| "shown (Some s) = s"

text \<open>\<open>!API_KEY\<close>: the variable is not set, or set to the empty string.\<close>

fun no_key :: "string option \<Rightarrow> bool" where
  "no_key None = True"
| "no_key (Some k) = (k = [])"

text \<open>
  The two functions share the text of their \<open>try\<close> body after the call (lines 33 to 56
  and 92 to 115) and of their \<open>catch\<close> block (lines 57 to 65 and 116 to 124).
\<close>

definition read_data :: "json \<Rightarrow> js_error + json" where
  "read_data data =
     (if data = JNull then
        Inl (Thrown ''TypeError'' ''Cannot read properties of null (reading 'status')'')
      else if property data ''status'' = Some (JStr ''error'') then
        (case property data ''message'' of
           None \<Rightarrow> Inl (UpstreamError ''An error occurred while fetching news'')
         | Some m \<Rightarrow>
             if falsy (Some m) then Inl (UpstreamError ''An error occurred while fetching news'')
             else if printable m then Inl (UpstreamError (ToString m))
             else Inl (Thrown ''TypeError'' ''Cannot convert object to primitive value''))
      else
        (case property data ''articles'' of
           None \<Rightarrow> Inr (JArr [])
         | Some a \<Rightarrow> if falsy (Some a) \<or> length_is_0 a then Inr (JArr []) else Inr a))"

definition read_response :: "response \<Rightarrow> js_error + json" where
  "read_response r =
     (if \<not> ok r then
        (if status r = 401 then Inl InvalidCredential
         else if status r = 429 then Inl RateLimited
         else Inl (UpstreamError (''API error: '' @ digits (status r) @ '' '' @ statusText r)))
      else
        (case json r of
           Inl e \<Rightarrow> Inl e
         | Inr data \<Rightarrow> read_data data))"

definition catch_block :: "js_error \<Rightarrow> js_error" where
  "catch_block error =
     (if str_includes (message error) ''Failed to fetch''
         \<or> str_includes (message error) ''NetworkError''
      then NetworkError
      else error)"

definition settle :: "js_error + response \<Rightarrow> js_error + json" where
  "settle outcome =
     (case (case outcome of Inl e \<Rightarrow> Inl e | Inr r \<Rightarrow> read_response r) of
        Inl error \<Rightarrow> Inl (catch_block error)
      | Inr articles \<Rightarrow> Inr articles)"

text \<open>
  A call returns its result, \<open>Inl\<close> for the error thrown, and the requests it sent over the
  network, in order. \<open>fetchTopHeadlines\<close> reads the clock: \<open>from\<close> is the text of
  \<open>yesterday.toISOString()\<close>, one day before the call, and is an argument here.
\<close>

definition fetchTopHeadlines ::
  "string option \<Rightarrow> network \<Rightarrow> string \<Rightarrow> (js_error + json) \<times> request list" where
  "fetchTopHeadlines API_KEY fetch from =
     (if no_key API_KEY then (Inl MissingApiKey, [])
      else
        let rq = \<lparr>url = BASE_URL @ ''/top-headlines?country=us&pageSize=10&from='' @ from,
                  headers = [(''X-Api-Key'', shown API_KEY)]\<rparr>
        in (settle (fetch rq), [rq]))"

definition fetchNews ::
  "string option \<Rightarrow> network \<Rightarrow> string \<Rightarrow> (js_error + json) \<times> request list" where
  "fetchNews API_KEY fetch topic =
     (if no_key API_KEY then (Inl MissingApiKey, [])
      else if topic = [] \<or> trim topic = [] then (Inl ValidationError, [])
      else
        let rq = \<lparr>url = BASE_URL @ ''/everything?q='' @ encodeURIComponent topic
                        @ ''&pageSize=10&sortBy=publishedAt&language=en'',
                  headers = [(''X-Api-Key'', shown API_KEY)]\<rparr>
        in (settle (fetch rq), [rq]))"

section \<open>\<^verbatim>\<open>api/news.js\<close>: the proxy\<close>

text \<open>
  Of the incoming request the handler reads \<open>method\<close> (here \<open>req_method\<close>) and \<open>query\<close>,
  the query parameters as a mapping of strings to strings, in the order of \<open>Object.keys\<close>,
  each key once. (A parameter that occurs several times in the URL, which the platform
  hands over as an array, is not part of this data model.) On the response object the
  handler sets headers and a status, and ends with \<open>end()\<close> or with \<open>json(v)\<close>.
\<close>

record vercel_request =
  req_method :: string
  query :: "(string \<times> string) list"

datatype reply = End | Json json

record vercel_response =
  res_headers :: "(string \<times> string) list"
  statusCode :: nat
  body :: reply

definition cors :: "(string \<times> string) list" where
  "cors =
     [(''Access-Control-Allow-Origin'', ''*''),
      (''Access-Control-Allow-Methods'', ''GET, OPTIONS''),
      (''Access-Control-Allow-Headers'', ''Content-Type'')]"

definition validEndpoints :: "string list" where
  "validEndpoints = [''top-headlines'', ''everything'']"

text \<open>
  \<open>URLSearchParams\<close> writes a parameter list in the form-urlencoded way: letters, digits
  and \<open>* - . _\<close> stay, a space becomes \<open>+\<close>, every other byte becomes \<open>%XX\<close>; a pair is
  \<open>name=value\<close>, and pairs are joined by \<open>&\<close>. A URL with no parameter appended has no
  \<open>?\<close>.
\<close>

definition form_byte :: "char \<Rightarrow> string" where
  "form_byte c =
     (if c = CHR '' '' then ''+''
      else if alnum c \<or> c \<in> set ''*-._'' then [c]
      else pct c)"

definition form_encode :: "string \<Rightarrow> string" where
  "form_encode s = concat (map form_byte s)"

definition serialize :: "(string \<times> string) list \<Rightarrow> string" where
  "serialize ps = join ''&'' (map (\<lambda>(k, v). form_encode k @ ''='' @ form_encode v) ps)"

definition href :: "string \<Rightarrow> (string \<times> string) list \<Rightarrow> string" where
  "href base ps = (if ps = [] then base else base @ ''?'' @ serialize ps)"

text \<open>
  The handler returns the response it gave, the requests it sent upstream, and what it
  wrote with \<open>console.error\<close>. \<open>forward\<close> is its \<open>try\<close> statement (lines 31 to 58).
\<close>

definition forward ::
  "string option \<Rightarrow> network \<Rightarrow> string \<Rightarrow> (string \<times> string) list
     \<Rightarrow> vercel_response \<times> request list \<times> js_error list" where
  "forward VITE_NEWS_API_KEY fetch endpoint params =
     (let apiUrl = href (''https://newsapi.org/v2/'' @ endpoint) params;
          rq = \<lparr>url = apiUrl, headers = [(''X-Api-Key'', shown VITE_NEWS_API_KEY)]\<rparr>
      in
        (case (case fetch rq of Inl e \<Rightarrow> Inl e | Inr r \<Rightarrow>
                 (case json r of Inl e \<Rightarrow> Inl e | Inr data \<Rightarrow> Inr (status r, data))) of
           Inr (st, data) \<Rightarrow>
             (\<lparr>res_headers = cors, statusCode = st, body = Json data\<rparr>, [rq], [])
         | Inl error \<Rightarrow>
             (\<lparr>res_headers = cors, statusCode = 500,
               body = Json (JObj [(''error'', JStr ''Failed to fetch news''),
                                  (''message'', JStr (message error))])\<rparr>,
              [rq], [error])))"

definition handler ::
  "string option \<Rightarrow> network \<Rightarrow> vercel_request
     \<Rightarrow> vercel_response \<times> request list \<times> js_error list" where
  "handler VITE_NEWS_API_KEY fetch req =
     (if req_method req = ''OPTIONS'' then
        (\<lparr>res_headers = cors, statusCode = 200, body = End\<rparr>, [], [])
      else if req_method req \<noteq> ''GET'' then
        (\<lparr>res_headers = cors, statusCode = 405,
          body = Json (JObj [(''error'', JStr ''Method not allowed'')])\<rparr>, [], [])
      else
        let endpoint = map_of (query req) ''endpoint'';
            params = filter (\<lambda>(k, v). k \<noteq> ''endpoint'') (query req)
        in
          if endpoint \<notin> set (map Some validEndpoints) then
            (\<lparr>res_headers = cors, statusCode = 400,
              body = Json (JObj [(''error'', JStr ''Invalid endpoint'')])\<rparr>, [], [])
          else forward VITE_NEWS_API_KEY fetch (shown endpoint) params)"

section \<open>Reading a URL\<close>




fun split :: "char \<Rightarrow> string \<Rightarrow> string list" where
  "split sep [] = [[]]"
| "split sep (c # cs) =
     (if c = sep then [] # split sep cs
      else (case split sep cs of x # xs \<Rightarrow> (c # x) # xs | [] \<Rightarrow> [[c]]))"









section \<open>\<^verbatim>\<open>newsApi.js\<close> behind the proxy (\<^verbatim>\<open>docs/CICD-DEPLOYMENT-GUIDE.md\<close>)\<close>




section \<open>The deployment\<close>




section \<open>Networks for the examples\<close>

text \<open>An upstream that answers every request with \<open>r\<close>, and a network that fails with \<open>e\<close>.\<close>

definition answers :: "response \<Rightarrow> network" where
  "answers r rq = Inr r"

definition offline :: "js_error \<Rightarrow> network" where
  "offline e rq = Inl e"

section \<open>Facts about the helpers\<close>

lemma lead_Nil: "lead ws [] = 0"
  by (induction ws) auto

lemma strip_Nil: "strip ws [] = []"
  by (subst strip.simps) (simp add: lead_Nil)

lemma trim_Nil: "trim [] = []"
  by (simp add: trim_def strip_Nil)

lemma lead_blank:
  assumes "blank c"
  shows "lead white_space (c # cs) = 1"
proof -
  from assms consider "c = CHR 0x09" | "c = CHR 0x0A" | "c = CHR 0x0B" | "c = CHR 0x0C"
    | "c = CHR 0x0D" | "c = CHR 0x20"
    by (auto simp: blank_def)
  then show ?thesis
    by cases (simp_all add: white_space_def)
qed

lemma strip_blank: "list_all blank s \<Longrightarrow> strip white_space s = []"
proof (induction s)
  case Nil
  show ?case by (rule strip_Nil)
next
  case (Cons c s)
  then have "lead white_space (c # s) = 1" "strip white_space s = []"
    by (simp_all add: lead_blank)
  then show ?case
    by (subst strip.simps) simp
qed

lemma trim_blank: "list_all blank s \<Longrightarrow> trim s = []"
  by (simp add: trim_def strip_blank strip_Nil)




text \<open>A call that sent a request settles on what the network answered to it.\<close>

lemma fetchNews_sent:
  "snd (fetchNews K fetch topic) = [rq] \<Longrightarrow>
   fst (fetchNews K fetch topic) = settle (fetch rq)"
  by (auto simp: fetchNews_def Let_def split: if_splits)

lemma fetchTopHeadlines_sent:
  "snd (fetchTopHeadlines K fetch from) = [rq] \<Longrightarrow>
   fst (fetchTopHeadlines K fetch from) = settle (fetch rq)"
  by (auto simp: fetchTopHeadlines_def Let_def split: if_splits)

subsection \<open>Percent-encoding and its reading\<close>























subsection \<open>The URLs that the code builds\<close>












subsection \<open>The calls and the requests they send\<close>




lemma settle_simps:
  "settle (Inl e) = Inl (catch_block e)"
  "read_response r = Inl e \<Longrightarrow> settle (Inr r) = Inl (catch_block e)"
  "read_response r = Inr a \<Longrightarrow> settle (Inr r) = Inr a"
  by (simp_all add: settle_def)

lemma direct_sent:
  assumes "call = fetchNews K fetch topic \<or> call = fetchTopHeadlines K fetch from"
      and "snd call = [rq]"
  shows "fst call = settle (fetch rq)"
  using assms by (auto simp: fetchNews_sent fetchTopHeadlines_sent)

subsection \<open>The proxied calls\<close>






section \<open>The claims\<close>







text \<open>
  C3, as amended. An exception of the network call whose message contains
  \<open>Failed to fetch\<close> or \<open>NetworkError\<close> is replaced by NetworkError with its fixed message;
  every exception raised after the request was sent, by the network call or by the
  reading of the response, whose message contains neither text is thrown on unchanged.
\<close>

theorem catch_classification:
  assumes "call = fetchNews K fetch topic \<or> call = fetchTopHeadlines K fetch from"
      and "snd call = [rq]"
      and "fetch rq = Inl e \<or> (fetch rq = Inr r \<and> read_response r = Inl e)"
  shows "(fetch rq = Inl e
            \<and> (str_includes (message e) ''Failed to fetch''
                 \<or> str_includes (message e) ''NetworkError'')
          \<longrightarrow> fst call = Inl NetworkError)
       \<and> (\<not> str_includes (message e) ''Failed to fetch''
            \<and> \<not> str_includes (message e) ''NetworkError''
          \<longrightarrow> fst call = Inl e)"
proof -
  have "fst call = settle (fetch rq)"
    using assms(1,2) by (rule direct_sent)
  also have "\<dots> = Inl (catch_block e)"
    using assms(3) by (auto simp: settle_simps)
  finally show ?thesis
    by (simp add: catch_block_def)
qed

theorem catch_classification_witness:
  "fst (fetchNews (Some ''k'') (offline (Thrown ''TypeError'' ''Failed to fetch'')) ''cats'')
     = Inl NetworkError
   \<and> fst (fetchTopHeadlines (Some ''k'')
            (answers \<lparr>status = 500, statusText = ''Internal Server Error'', json = Inr JNull\<rparr>)
            ''2024-05-01T10:00:00.000Z'')
     = Inl (UpstreamError ''API error: 500 Internal Server Error'')"
proof -
  let ?e1 = "Thrown ''TypeError'' ''Failed to fetch''"
  let ?r2 = "\<lparr>status = 500, statusText = ''Internal Server Error'', json = Inr JNull\<rparr>"
  let ?e2 = "UpstreamError ''API error: 500 Internal Server Error''"
  let ?q1 = "\<lparr>url = ''https://newsapi.org/v2/everything?q=cats&pageSize=10&sortBy=publishedAt&language=en'',
               headers = [(''X-Api-Key'', ''k'')]\<rparr>"
  let ?q2 = "\<lparr>url = ''https://newsapi.org/v2/top-headlines?country=us&pageSize=10&from=2024-05-01T10:00:00.000Z'',
               headers = [(''X-Api-Key'', ''k'')]\<rparr>"
  have s1: "snd (fetchNews (Some ''k'') (offline ?e1) ''cats'') = [?q1]"
    by code_simp
  have s2: "snd (fetchTopHeadlines (Some ''k'') (answers ?r2) ''2024-05-01T10:00:00.000Z'') = [?q2]"
    by code_simp
  have m1: "str_includes (message ?e1) ''Failed to fetch''"
    by code_simp
  have r2: "read_response ?r2 = Inl ?e2"
    by code_simp
  have m2: "\<not> str_includes (message ?e2) ''Failed to fetch''"
           "\<not> str_includes (message ?e2) ''NetworkError''"
    by code_simp+
  have "fst (fetchNews (Some ''k'') (offline ?e1) ''cats'') = Inl NetworkError"
    using catch_classification [OF disjI1 [OF refl] s1, of ?e1] m1
    by (simp add: offline_def)
  moreover have "fst (fetchTopHeadlines (Some ''k'') (answers ?r2) ''2024-05-01T10:00:00.000Z'')
                   = Inl ?e2"
    using catch_classification [OF disjI2 [OF refl] s2, of ?e2 ?r2] m2 r2
    by (simp add: answers_def)
  ultimately show ?thesis by simp
qed

text \<open>
  C3 as stated fails twice. An exception of the network call with another message
  (\<open>Load failed\<close>) is not classified as NetworkError. And an error that is already
  classified, the UpstreamError that carries the message of the response body, is
  replaced by NetworkError when that message contains \<open>Failed to fetch\<close>.
\<close>

theorem catch_classification_counterexample:
  "fst (fetchNews (Some ''k'') (offline (Thrown ''TypeError'' ''Load failed'')) ''cats'')
     = Inl (Thrown ''TypeError'' ''Load failed'')
   \<and> Thrown ''TypeError'' ''Load failed'' \<noteq> NetworkError
   \<and> read_response \<lparr>status = 200, statusText = ''OK'',
                      json = Inr (JObj [(''status'', JStr ''error''),
                                        (''message'', JStr ''Failed to fetch sources'')])\<rparr>
     = Inl (UpstreamError ''Failed to fetch sources'')
   \<and> fst (fetchNews (Some ''k'')
            (answers \<lparr>status = 200, statusText = ''OK'',
                       json = Inr (JObj [(''status'', JStr ''error''),
                                         (''message'', JStr ''Failed to fetch sources'')])\<rparr>)
            ''cats'')
     = Inl NetworkError
   \<and> UpstreamError ''Failed to fetch sources'' \<noteq> NetworkError"
  by code_simp

text \<open>
  C4. With no API key in the environment, the direct calls throw the error of the missing
  key and send no request (for every network and argument: \<open>missing_key\<close> above). The
  handler does not detect the missing key: it sends the request upstream with the header
  \<open>X-Api-Key: undefined\<close> and forwards what the upstream answers.
\<close>

theorem handler_without_key:
  "fetchNews None
     (answers \<lparr>status = 401, statusText = ''Unauthorized'',
                json = Inr (JObj [(''status'', JStr ''error''), (''code'', JStr ''apiKeyInvalid'')])\<rparr>)
     ''foo'' = (Inl MissingApiKey, [])
   \<and> fetchTopHeadlines None
     (answers \<lparr>status = 401, statusText = ''Unauthorized'',
                json = Inr (JObj [(''status'', JStr ''error''), (''code'', JStr ''apiKeyInvalid'')])\<rparr>)
     ''2024-05-01T10:00:00.000Z'' = (Inl MissingApiKey, [])
   \<and> handler None
     (answers \<lparr>status = 401, statusText = ''Unauthorized'',
                json = Inr (JObj [(''status'', JStr ''error''), (''code'', JStr ''apiKeyInvalid'')])\<rparr>)
     \<lparr>req_method = ''GET'', query = [(''endpoint'', ''everything''), (''q'', ''foo'')]\<rparr> =
   (\<lparr>res_headers = cors, statusCode = 401,
     body = Json (JObj [(''status'', JStr ''error''), (''code'', JStr ''apiKeyInvalid'')])\<rparr>,
    [\<lparr>url = ''https://newsapi.org/v2/everything?q=foo'',
      headers = [(''X-Api-Key'', ''undefined'')]\<rparr>],
    [])"
  by code_simp




text \<open>
  C6, as amended. For every response with a status from 200 to 299 whose body is JSON,
  is not \<open>null\<close> and has no error indicator: when the body has no \<open>articles\<close>, or an
  empty list, the call returns the empty list; when \<open>articles\<close> is a list of \<open>N\<close> articles,
  the call returns that very list, the same \<open>N\<close> objects in the same order, each with the
  fields and the field names the upstream gave it.
\<close>

theorem articles_passed_through:
  assumes "call = fetchNews K fetch topic \<or> call = fetchTopHeadlines K fetch from"
      and "snd call = [rq]"
      and "fetch rq = Inr r"
      and "ok r"
      and "json r = Inr data"
      and "data \<noteq> JNull"
      and "property data ''status'' \<noteq> Some (JStr ''error'')"
  shows "(property data ''articles'' = None \<longrightarrow> fst call = Inr (JArr []))
       \<and> (property data ''articles'' = Some (JArr as) \<longrightarrow> fst call = Inr (JArr as))"
proof -
  have "fst call = settle (fetch rq)"
    using assms(1,2) by (rule direct_sent)
  moreover have "read_response r = read_data data"
    using assms(4,5) by (simp add: read_response_def)
  moreover have "property data ''articles'' = None \<longrightarrow> read_data data = Inr (JArr [])"
    using assms(6,7) by (simp add: read_data_def)
  moreover have "property data ''articles'' = Some (JArr as) \<longrightarrow> read_data data = Inr (JArr as)"
    using assms(6,7) by (simp add: read_data_def)
  ultimately show ?thesis
    using assms(3) by (simp add: settle_simps)
qed

theorem articles_passed_through_witness:
  "fst (fetchNews (Some ''k'')
          (answers \<lparr>status = 200, statusText = ''OK'',
                     json = Inr (JObj [(''status'', JStr ''ok''), (''totalResults'', JNum ''2''),
                                       (''articles'', JArr [JObj [(''title'', JStr ''b'')],
                                                            JObj [(''title'', JStr ''a'')]])])\<rparr>)
          ''cats'')
     = Inr (JArr [JObj [(''title'', JStr ''b'')], JObj [(''title'', JStr ''a'')]])
   \<and> fst (fetchTopHeadlines (Some ''k'')
          (answers \<lparr>status = 200, statusText = ''OK'',
                     json = Inr (JObj [(''status'', JStr ''ok''), (''totalResults'', JNum ''0'')])\<rparr>)
          ''2024-05-01T10:00:00.000Z'')
     = Inr (JArr [])"
proof -
  let ?as = "[JObj [(''title'', JStr ''b'')], JObj [(''title'', JStr ''a'')]]"
  let ?f1 = "[(''status'', JStr ''ok''), (''totalResults'', JNum ''2''), (''articles'', JArr ?as)]"
  let ?f2 = "[(''status'', JStr ''ok''), (''totalResults'', JNum ''0'')]"
  let ?r1 = "\<lparr>status = 200, statusText = ''OK'', json = Inr (JObj ?f1)\<rparr>"
  let ?r2 = "\<lparr>status = 200, statusText = ''OK'', json = Inr (JObj ?f2)\<rparr>"
  let ?q1 = "\<lparr>url = ''https://newsapi.org/v2/everything?q=cats&pageSize=10&sortBy=publishedAt&language=en'',
               headers = [(''X-Api-Key'', ''k'')]\<rparr>"
  let ?q2 = "\<lparr>url = ''https://newsapi.org/v2/top-headlines?country=us&pageSize=10&from=2024-05-01T10:00:00.000Z'',
               headers = [(''X-Api-Key'', ''k'')]\<rparr>"
  have s1: "snd (fetchNews (Some ''k'') (answers ?r1) ''cats'') = [?q1]"
    by code_simp
  have s2: "snd (fetchTopHeadlines (Some ''k'') (answers ?r2) ''2024-05-01T10:00:00.000Z'') = [?q2]"
    by code_simp
  have o: "ok ?r1" "ok ?r2"
    by (simp_all add: ok_def)
  have "fst (fetchNews (Some ''k'') (answers ?r1) ''cats'') = Inr (JArr ?as)"
    using articles_passed_through [OF disjI1 [OF refl] s1 _ o(1), of "JObj ?f1" ?as]
    by (simp add: answers_def)
  moreover have "fst (fetchTopHeadlines (Some ''k'') (answers ?r2) ''2024-05-01T10:00:00.000Z'')
                   = Inr (JArr [])"
    using articles_passed_through [OF disjI2 [OF refl] s2 _ o(2), of "JObj ?f2"]
    by (simp add: answers_def)
  ultimately show ?thesis by simp
qed

text \<open>
  C6 as stated fails on the shape of the records: the call returns the upstream object
  itself, which has \<open>urlToImage\<close> and a nested \<open>source.name\<close>, and neither \<open>imageUrl\<close> nor
  \<open>sourceName\<close>. And on the JSON body \<open>null\<close>, which has no error indicator and no
  articles, the call throws a TypeError instead of returning the empty list.
\<close>

theorem articles_passed_through_counterexample:
  "fst (fetchNews (Some ''k'')
          (answers \<lparr>status = 200, statusText = ''OK'',
                     json = Inr (JObj [(''status'', JStr ''ok''), (''totalResults'', JNum ''1''),
                       (''articles'', JArr [JObj
                          [(''source'', JObj [(''id'', JNull), (''name'', JStr ''BBC'')]),
                           (''title'', JStr ''t''),
                           (''description'', JStr ''d''),
                           (''url'', JStr ''https://example.org/a''),
                           (''urlToImage'', JStr ''https://example.org/a.png''),
                           (''publishedAt'', JStr ''2024-05-01T10:00:00Z'')]])])\<rparr>)
          ''cats'')
     = Inr (JArr [JObj
                    [(''source'', JObj [(''id'', JNull), (''name'', JStr ''BBC'')]),
                     (''title'', JStr ''t''),
                     (''description'', JStr ''d''),
                     (''url'', JStr ''https://example.org/a''),
                     (''urlToImage'', JStr ''https://example.org/a.png''),
                     (''publishedAt'', JStr ''2024-05-01T10:00:00Z'')]])
   \<and> property (JObj
                    [(''source'', JObj [(''id'', JNull), (''name'', JStr ''BBC'')]),
                     (''title'', JStr ''t''),
                     (''description'', JStr ''d''),
                     (''url'', JStr ''https://example.org/a''),
                     (''urlToImage'', JStr ''https://example.org/a.png''),
                     (''publishedAt'', JStr ''2024-05-01T10:00:00Z'')]) ''imageUrl'' = None
   \<and> property (JObj
                    [(''source'', JObj [(''id'', JNull), (''name'', JStr ''BBC'')]),
                     (''title'', JStr ''t''),
                     (''description'', JStr ''d''),
                     (''url'', JStr ''https://example.org/a''),
                     (''urlToImage'', JStr ''https://example.org/a.png''),
                     (''publishedAt'', JStr ''2024-05-01T10:00:00Z'')]) ''sourceName'' = None
   \<and> fst (fetchNews (Some ''k'')
          (answers \<lparr>status = 200, statusText = ''OK'', json = Inr JNull\<rparr>) ''cats'')
     = Inl (Thrown ''TypeError'' ''Cannot read properties of null (reading 'status')'')"
  by code_simp




text \<open>
  C8, as amended. For every topic whose trimmed form is empty (the empty topic, and by
  \<open>trim_blank\<close> every topic of spaces, tabs and line breaks only), \<open>fetchNews\<close> sends no
  request; it fails with ValidationError when the API key is configured, and with the
  error of the missing key otherwise.
\<close>

theorem empty_topic:
  assumes "trim topic = []"
  shows "snd (fetchNews K fetch topic) = []
       \<and> fst (fetchNews K fetch topic) = Inl (if no_key K then MissingApiKey else ValidationError)"
  using assms by (simp add: fetchNews_def)

theorem empty_topic_witness:
  "fetchNews (Some ''k'') (offline (Thrown ''TypeError'' ''Failed to fetch'')) ''   ''
     = (Inl ValidationError, [])
   \<and> fetchNews (Some ''k'') (offline (Thrown ''TypeError'' ''Failed to fetch'')) []
     = (Inl ValidationError, [])"
proof -
  have t: "trim ''   '' = []"
    by code_simp
  show ?thesis
    using empty_topic [OF t, of "Some ''k''" "offline (Thrown ''TypeError'' ''Failed to fetch'')"]
          empty_topic [OF trim_Nil, of "Some ''k''" "offline (Thrown ''TypeError'' ''Failed to fetch'')"]
    by (simp add: prod_eq_iff)
qed

text \<open>
  C8 as stated fails where the API key is not configured: the error is that of the
  missing key, not ValidationError.
\<close>

theorem empty_topic_counterexample:
  "fst (fetchNews None (offline (Thrown ''TypeError'' ''Failed to fetch'')) ''   '')
     = Inl MissingApiKey \<and> MissingApiKey \<noteq> ValidationError"
  by (simp add: fetchNews_def MissingApiKey_def ValidationError_def)



text \<open>
  C10. A GET request whose \<open>endpoint\<close> parameter is absent or is neither
  \<open>top-headlines\<close> nor \<open>everything\<close> is answered with status 400 and the error
  \<open>Invalid endpoint\<close>, and no request is sent upstream.
\<close>

theorem invalid_endpoint:
  assumes "req_method req = ''GET''"
      and "map_of (query req) ''endpoint'' \<notin> {Some ''top-headlines'', Some ''everything''}"
  shows "handler key fetch req =
           (\<lparr>res_headers = cors, statusCode = 400,
             body = Json (JObj [(''error'', JStr ''Invalid endpoint'')])\<rparr>, [], [])"
  using assms by (simp add: handler_def validEndpoints_def Let_def)

theorem invalid_endpoint_witness:
  "handler (Some ''k'') (offline (Thrown ''TypeError'' ''fetch failed''))
     \<lparr>req_method = ''GET'', query = [(''endpoint'', ''unknown'')]\<rparr> =
     (\<lparr>res_headers = cors, statusCode = 400,
       body = Json (JObj [(''error'', JStr ''Invalid endpoint'')])\<rparr>, [], [])
   \<and> handler None (offline (Thrown ''TypeError'' ''fetch failed''))
     \<lparr>req_method = ''GET'', query = [(''q'', ''foo'')]\<rparr> =
     (\<lparr>res_headers = cors, statusCode = 400,
       body = Json (JObj [(''error'', JStr ''Invalid endpoint'')])\<rparr>, [], [])"
  using invalid_endpoint [of "\<lparr>req_method = ''GET'', query = [(''endpoint'', ''unknown'')]\<rparr>"
                             "Some ''k''" "offline (Thrown ''TypeError'' ''fetch failed'')"]
        invalid_endpoint [of "\<lparr>req_method = ''GET'', query = [(''q'', ''foo'')]\<rparr>"
                             None "offline (Thrown ''TypeError'' ''fetch failed'')"]
  by simp

end
